theory Spec2Isabelle
  imports Complex_Main "HOL-Library.Word"
begin

unbundle bit_operations_syntax

section \<open>Python values used by the flasher\<close>

text \<open>
  The notebook \<^verbatim>\<open>serialComm_stt.ipynb\<close> works on Python \<^verbatim>\<open>bytes\<close> objects
  (lists of 8-bit values), on unbounded integers and on strings. Exceptions are values of
  \<open>py_error\<close>; an operation that mutates an object returns the object as it is after the
  call together with the exception raised, if any, because a Python object keeps the
  assignments made before a raise.
\<close>

type_synonym byte = "8 word"

datatype py_error = IndexError | ValueError | OverflowError | TypeError | OSError

text \<open>A field that holds an \<^verbatim>\<open>int\<close> at construction and a \<^verbatim>\<open>str\<close> after loading.\<close>

datatype py_val = PyInt int | PyStr string

text \<open>The arguments of one \<^verbatim>\<open>print(...)\<close> call: string literals and numbers.\<close>

datatype print_arg = Str string | Num int

text \<open>\<^verbatim>\<open>xs[i]\<close> for a non-negative index: IndexError when out of range.\<close>

definition index :: "'a list \<Rightarrow> nat \<Rightarrow> py_error + 'a" where
  "index xs i = (if i < length xs then Inr (xs ! i) else Inl IndexError)"

subsection \<open>\<^verbatim>\<open>bytes.hex()\<close> and \<^verbatim>\<open>bytes.fromhex()\<close>\<close>

definition hexdigit :: "nat \<Rightarrow> char" where
  "hexdigit n = char_of (if n < 10 then 48 + n else 87 + n)"

definition hex_byte :: "byte \<Rightarrow> string" where
  "hex_byte b = [hexdigit (unat b div 16), hexdigit (unat b mod 16)]"

definition hex :: "byte list \<Rightarrow> string" where
  "hex bs = concat (map hex_byte bs)"

definition hexval :: "char \<Rightarrow> nat option" where
  "hexval c =
     (let n = (of_char c :: nat) in
      if 48 \<le> n \<and> n \<le> 57 then Some (n - 48)
      else if 97 \<le> n \<and> n \<le> 102 then Some (n - 87)
      else if 65 \<le> n \<and> n \<le> 70 then Some (n - 55)
      else None)"

text \<open>
  \<^verbatim>\<open>bytes.fromhex(s)\<close> on a string of hex digit pairs; ValueError on an odd length or a
  character that is no hex digit. (Python also skips ASCII whitespace between pairs; the
  strings passed here come from \<^verbatim>\<open>hex()\<close> and hold none.)
\<close>

fun fromhex :: "string \<Rightarrow> py_error + byte list" where
  "fromhex [] = Inr []"
| "fromhex [c] = Inl ValueError"
| "fromhex (c1 # c2 # cs) =
     (case (hexval c1, hexval c2) of
        (Some h, Some l) \<Rightarrow>
          (case fromhex cs of
             Inl e \<Rightarrow> Inl e
           | Inr bs \<Rightarrow> Inr (of_nat (16 * h + l) # bs))
      | _ \<Rightarrow> Inl ValueError)"

subsection \<open>\<^verbatim>\<open>int(...)\<close> and \<^verbatim>\<open>int.to_bytes(...)\<close>\<close>

definition decval :: "char \<Rightarrow> nat option" where
  "decval c =
     (let n = (of_char c :: nat) in
      if 48 \<le> n \<and> n \<le> 57 then Some (n - 48) else None)"

text \<open>
  \<^verbatim>\<open>int(s)\<close> for a string: base 10. On the strings this program passes (the output of
  \<^verbatim>\<open>hex()\<close>: lowercase hex digits, no sign, no blanks, no underscores) the call returns the
  decimal value when the string is non-empty and every character is a decimal digit, and
  raises ValueError otherwise.
\<close>

fun dec_digits :: "nat \<Rightarrow> string \<Rightarrow> nat option" where
  "dec_digits acc [] = Some acc"
| "dec_digits acc (c # cs) =
     (case decval c of
        None \<Rightarrow> None
      | Some v \<Rightarrow> dec_digits (10 * acc + v) cs)"

definition py_int :: "py_val \<Rightarrow> py_error + int" where
  "py_int v =
     (case v of
        PyInt n \<Rightarrow> Inr n
      | PyStr s \<Rightarrow>
          (if s = [] then Inl ValueError
           else case dec_digits 0 s of
                  None \<Rightarrow> Inl ValueError
                | Some n \<Rightarrow> Inr (int n)))"

text \<open>The \<open>k\<close> low-order bytes of \<open>n\<close>, most significant first.\<close>

fun be_bytes :: "nat \<Rightarrow> nat \<Rightarrow> byte list" where
  "be_bytes 0 n = []"
| "be_bytes (Suc k) n = be_bytes k (n div 256) @ [of_nat (n mod 256)]"

text \<open>\<^verbatim>\<open>n.to_bytes(k, 'big')\<close>: OverflowError when \<open>n\<close> is negative or needs more than
  \<open>k\<close> bytes.\<close>

definition to_bytes :: "int \<Rightarrow> nat \<Rightarrow> py_error + byte list" where
  "to_bytes n k =
     (if 0 \<le> n \<and> n < 256 ^ k then Inr (be_bytes k (nat n)) else Inl OverflowError)"

section \<open>The firmware image: class \<^verbatim>\<open>BinaryFile\<close>\<close>

definition BYTES_PER_PACKET :: nat where
  "BYTES_PER_PACKET = 4"

record BinaryFile =
  fileData :: "byte list"
  fileSizeBytes :: nat
  fileSizePackets :: nat
  filePackets :: "byte list list"
  SW_MAJOR :: py_val
  SW_MINOR :: py_val
  CRC_MSB :: int
  CRC_LSB :: int

text \<open>\<^verbatim>\<open>BinaryFile.__init__\<close>\<close>

definition BinaryFile_init :: BinaryFile where
  "BinaryFile_init =
     \<lparr>fileData = [], fileSizeBytes = 0, fileSizePackets = 0, filePackets = [],
      SW_MAJOR = PyInt 0, SW_MINOR = PyInt 0, CRC_MSB = 0, CRC_LSB = 0\<rparr>"

text \<open>
  Modelled from the spec: the checksum function. The source calls
  \<^verbatim>\<open>crcmod.predefined.Crc('crc-ccitt-false')\<close> of the third-party library crcmod, whose
  code is not in the repository; the spec names it a 16-bit CRC over the entire raw
  buffer with the CRC-CCITT (false) profile, that is polynomial 0x1021, initial value
  0xFFFF, no bit reflection and no final XOR, one byte at a time with the most
  significant bit first. No statement below depends on the value it computes.
\<close>

fun crc_shift :: "nat \<Rightarrow> 16 word \<Rightarrow> 16 word" where
  "crc_shift 0 c = c"
| "crc_shift (Suc k) c =
     crc_shift k (if bit c 15 then push_bit 1 c XOR 0x1021 else push_bit 1 c)"

definition crc_update_byte :: "16 word \<Rightarrow> byte \<Rightarrow> 16 word" where
  "crc_update_byte c b = crc_shift 8 (c XOR push_bit 8 (ucast b))"

definition crc_ccitt_false :: "byte list \<Rightarrow> 16 word" where
  "crc_ccitt_false bs = foldl crc_update_byte 0xFFFF bs"

text \<open>
  One iteration of the packet loop: the slice
  \<^verbatim>\<open>fileData[idx*4 : idx*4+4][::-1]\<close>. Slicing a \<^verbatim>\<open>bytes\<close> object never raises (it
  returns the bytes that exist), so the \<^verbatim>\<open>except\<close> branch of the loop is never taken.
\<close>

definition packet_slice :: "byte list \<Rightarrow> nat \<Rightarrow> byte list" where
  "packet_slice data idx =
     rev (take BYTES_PER_PACKET (drop (idx * BYTES_PER_PACKET) data))"

text \<open>
  \<^verbatim>\<open>BinaryFile.loadBinary\<close>. The argument \<open>file\<close> is what
  \<^verbatim>\<open>open(path, mode="rb").read()\<close> returns, \<open>None\<close> when the file cannot be opened.
  \<^verbatim>\<open>math.ceil(len / 4)\<close> divides in floating point; the quotient is exact for every
  length below \<open>2^53\<close>, and the model takes the exact quotient. The loop appends to
  \<^verbatim>\<open>self.filePackets\<close>, which only \<^verbatim>\<open>__init__\<close> empties. The \<^verbatim>\<open>print\<close> calls at the end of
  the method read packets 0, 1 and 2, which exist once packet 0x81 does; they follow the
  last assignment and are left out.
\<close>

definition loadBinary :: "BinaryFile \<Rightarrow> byte list option \<Rightarrow> BinaryFile \<times> py_error option" where
  "loadBinary self file =
     (case file of
        None \<Rightarrow> (self, Some OSError)
      | Some contents \<Rightarrow>
          (let self1 = self\<lparr>fileData := contents,
                             fileSizeBytes := length contents,
                             fileSizePackets :=
                               nat \<lceil>real (length contents) / real BYTES_PER_PACKET\<rceil>\<rparr>;
               self2 = self1\<lparr>filePackets :=
                          foldl (\<lambda>ps idx. ps @ [packet_slice contents idx])
                            (filePackets self1) [0..<fileSizePackets self1]\<rparr>
           in case index (filePackets self2) 0x80 of
                Inl e \<Rightarrow> (self2, Some e)
              | Inr p80 \<Rightarrow>
                  (let self3 = self2\<lparr>SW_MAJOR := PyStr (hex p80)\<rparr>
                   in case index (filePackets self3) 0x81 of
                        Inl e \<Rightarrow> (self3, Some e)
                      | Inr p81 \<Rightarrow>
                          (let self4 = self3\<lparr>SW_MINOR := PyStr (hex p81)\<rparr>;
                               crcValue = crc_ccitt_false contents
                           in (self4\<lparr>CRC_MSB := uint (drop_bit 8 (crcValue AND 0xFF00)),
                                       CRC_LSB := uint (crcValue AND 0x00FF)\<rparr>,
                               None)))))"

section \<open>The serial port and the console: class \<^verbatim>\<open>SerialInterface\<close>\<close>

text \<open>
  What the program does to the outside: the byte strings written to the serial port, in
  order, and the lines printed, each the argument list of its \<^verbatim>\<open>print\<close> call.
\<close>

record world =
  serialTx :: "byte list list"
  console :: "print_arg list list"

definition world_init :: world where
  "world_init = \<lparr>serialTx = [], console = []\<rparr>"

definition py_print :: "print_arg list \<Rightarrow> world \<Rightarrow> world" where
  "py_print args w = w\<lparr>console := console w @ [args]\<rparr>"

text \<open>
  \<^verbatim>\<open>SerialInterface.readSerialBuffer\<close>. \<open>pending\<close> is the content of the port's input
  buffer: \<^verbatim>\<open>in_waiting\<close> is its length, \<^verbatim>\<open>read(4)\<close> returns its first four bytes (fewer
  when fewer are there), and the rest is thrown away by \<^verbatim>\<open>reset_input_buffer\<close>.
\<close>

definition readSerialBuffer :: "byte list \<Rightarrow> bool \<Rightarrow> world \<Rightarrow> byte list option \<times> world" where
  "readSerialBuffer pending echo w =
     (if length pending > 0 then
        (let serialString = take 4 pending
         in (Some serialString,
             if echo then py_print [Str ''     RX-> '', Str (hex serialString)] w else w))
      else (None, w))"

text \<open>\<^verbatim>\<open>SerialInterface.writeSerialBuffer\<close>\<close>

definition writeSerialBuffer :: "string \<Rightarrow> bool \<Rightarrow> world \<Rightarrow> py_error option \<times> world" where
  "writeSerialBuffer txBufferStr echo w =
     (case fromhex txBufferStr of
        Inl e \<Rightarrow> (Some e, w)
      | Inr txBuffer \<Rightarrow>
          (let w1 = w\<lparr>serialTx := serialTx w @ [txBuffer]\<rparr>
           in (None, if echo then py_print [Str ''     TX-> '', Str txBufferStr] w1 else w1)))"

section \<open>The protocol state machine\<close>

text \<open>
  One constructor per state class; \<^verbatim>\<open>SendFlashData_04\<close> carries its attribute
  \<^verbatim>\<open>packetNum\<close>.
\<close>

datatype state =
    Idle_01
  | CheckHeaderAndEraseMem_02
  | Prepare2Flash_03
  | SendFlashData_04 nat
  | FlashDone_99
  | Error_98

text \<open>The guard \<^verbatim>\<open>input is not None and len(input) > 0 and input[0] == c\<close>.\<close>

definition opcode_is :: "byte list option \<Rightarrow> byte \<Rightarrow> bool" where
  "opcode_is inp c =
     (case inp of None \<Rightarrow> False | Some bs \<Rightarrow> length bs > 0 \<and> bs ! 0 = c)"

text \<open>\<^verbatim>\<open>input[i]\<close>, as an integer.\<close>

definition input_at :: "byte list option \<Rightarrow> nat \<Rightarrow> py_error + int" where
  "input_at inp i =
     (case inp of
        None \<Rightarrow> Inl TypeError
      | Some bs \<Rightarrow> (case index bs i of Inl e \<Rightarrow> Inl e | Inr b \<Rightarrow> Inr (uint b)))"

text \<open>
  \<^verbatim>\<open>stateActions\<close> of each class (\<^verbatim>\<open>SuperState.stateActions\<close> does nothing). The result is
  the state object and the world after the call, and the exception if one was raised.
\<close>

fun stateActions :: "BinaryFile \<Rightarrow> state \<Rightarrow> byte list option \<Rightarrow> world \<Rightarrow> (state \<times> world) \<times> py_error option" where
  "stateActions binaryFile CheckHeaderAndEraseMem_02 inp w =
     (if opcode_is inp 0x81 then
        (case input_at inp 1 of
           Inl e \<Rightarrow> ((CheckHeaderAndEraseMem_02, w), Some e)
         | Inr sector \<Rightarrow>
             ((CheckHeaderAndEraseMem_02,
               py_print [Str ''--> Erasing flash memory - Sector '', Num sector,
                         Str '' erased! <--''] w), None))
      else ((CheckHeaderAndEraseMem_02, w), None))"
| "stateActions binaryFile Prepare2Flash_03 inp w =
     (if opcode_is inp 0x81 then
        ((Prepare2Flash_03,
          py_print [Str ''--> Waiting MCU readiness to start to send binary packets <--''] w),
         None)
      else ((Prepare2Flash_03, w), None))"
| "stateActions binaryFile (SendFlashData_04 packetNum) inp w =
     (let sent =
        (if packetNum < fileSizePackets binaryFile then
           (case index (filePackets binaryFile) packetNum of
              Inl e \<Rightarrow> ((packetNum, w), Some e)
            | Inr packet \<Rightarrow>
                (case writeSerialBuffer (hex packet) False w of
                   (Some e, w1) \<Rightarrow> ((packetNum, w1), Some e)
                 | (None, w1) \<Rightarrow> ((packetNum + 1, w1), None)))
         else ((packetNum, w), None))
      in case sent of
           ((n, w1), Some e) \<Rightarrow> ((SendFlashData_04 n, w1), Some e)
         | ((n, w1), None) \<Rightarrow>
             (if n mod 250 = 0 then
                ((SendFlashData_04 n,
                  py_print [Str ''--> Transmitted packets: '', Num (int n), Str '' <--''] w1),
                 None)
              else ((SendFlashData_04 n, w1), None)))"
| "stateActions binaryFile st inp w = ((st, w), None)"

text \<open>
  \<^verbatim>\<open>stateTransition\<close> of each class: the value returned (\<open>None\<close> for Python's
  \<^verbatim>\<open>None\<close>, when no branch returns a state) or the exception raised, and the world after
  the call.
\<close>

fun stateTransition :: "BinaryFile \<Rightarrow> state \<Rightarrow> byte list option \<Rightarrow> world \<Rightarrow> (py_error + state option) \<times> world" where
  "stateTransition binaryFile Idle_01 inp w =
     (if opcode_is inp 0x80 then
        (let w1 = py_print [Str ''--> Device found! Starting communication to flash SW + sending SW version to MCU <--''] w
         in case py_int (SW_MAJOR binaryFile) of
              Inl e \<Rightarrow> (Inl e, w1)
            | Inr major \<Rightarrow>
           (case to_bytes major 1 of
              Inl e \<Rightarrow> (Inl e, w1)
            | Inr majorBytes \<Rightarrow>
           (case py_int (SW_MINOR binaryFile) of
              Inl e \<Rightarrow> (Inl e, w1)
            | Inr minor \<Rightarrow>
           (case to_bytes minor 1 of
              Inl e \<Rightarrow> (Inl e, w1)
            | Inr minorBytes \<Rightarrow>
           (let cmm = [0xC0] @ majorBytes @ minorBytes @ [0xFF]
            in case writeSerialBuffer (hex cmm) True w1 of
                 (Some e, w2) \<Rightarrow> (Inl e, w2)
               | (None, w2) \<Rightarrow> (Inr (Some CheckHeaderAndEraseMem_02), w2))))))
      else (Inr None, w))"
| "stateTransition binaryFile CheckHeaderAndEraseMem_02 inp w =
     (if opcode_is inp 0x8E then
        (Inr (Some Idle_01),
         py_print [Str ''--> SW version already flashed in MCU. No action! <--''] w)
      else if opcode_is inp 0x81 then
        (case input_at inp 2 of
           Inl e \<Rightarrow> (Inl e, w)
         | Inr done \<Rightarrow>
             (if done = 0x01 then
                (let w1 = py_print [Str ''--> Erasing flash memory - All sectors erased succesfully! <--''] w
                 in case to_bytes (int (fileSizePackets binaryFile)) 3 of
                      Inl e \<Rightarrow> (Inl e, w1)
                    | Inr fileSizePacketsHex \<Rightarrow>
                        (let cmm = [0xC1] @ fileSizePacketsHex
                         in case writeSerialBuffer (hex cmm) True w1 of
                              (Some e, w2) \<Rightarrow> (Inl e, w2)
                            | (None, w2) \<Rightarrow> (Inr (Some Prepare2Flash_03), w2)))
              else (Inr None, w)))
      else (Inr None, w))"
| "stateTransition binaryFile Prepare2Flash_03 inp w =
     (if opcode_is inp 0x82 then
        (Inr (Some (SendFlashData_04 0)), py_print [Str ''--> Sw authorized to be flashed <--''] w)
      else (Inr None, w))"
| "stateTransition binaryFile (SendFlashData_04 packetNum) inp w =
     (if opcode_is inp 0x84 then
        (let w1 = py_print [Str ''--> Transmission finished - Transmitted '', Num (int packetNum),
                            Str '' of '', Num (int (fileSizePackets binaryFile)), Str '' <--''] w
         in case input_at inp 2 of
              Inl e \<Rightarrow> (Inl e, w1)
            | Inr b2 \<Rightarrow>
                (if b2 = CRC_MSB binaryFile then
                   (case input_at inp 3 of
                      Inl e \<Rightarrow> (Inl e, w1)
                    | Inr b3 \<Rightarrow>
                        (if b3 = CRC_LSB binaryFile then
                           (Inr (Some FlashDone_99),
                            py_print [Str ''--> CRC matched - Data integrity ensured!''] w1)
                         else
                           (Inr (Some FlashDone_99),
                            py_print [Str ''--> CRC not matched - expected - Data integrity not ensured!''] w1)))
                 else
                   (Inr (Some FlashDone_99),
                    py_print [Str ''--> CRC not matched - expected - Data integrity not ensured!''] w1)))
      else if opcode_is inp 0x8F then
        (Inr (Some Error_98), py_print [Str ''--> Error! <--''] w)
      else (Inr None, w))"
| "stateTransition binaryFile FlashDone_99 inp w =
     (if opcode_is inp 0x85 then
        (Inr (Some Idle_01), py_print [Str ''--> Bootloader finished. Jumping to application <--''] w)
      else (Inr None, w))"
| "stateTransition binaryFile Error_98 inp w =
     (Inr (Some Idle_01), py_print [Str ''--> Process error. Aborting! <--''] w)"

text \<open>
  \<^verbatim>\<open>Context.execute\<close>: the action of the current state, then its transition; the state
  attribute is reassigned only when the transition returned a state. An exception leaves
  the machine with what was done before it.
\<close>

definition execute :: "BinaryFile \<Rightarrow> state \<times> world \<Rightarrow> byte list option \<Rightarrow> (state \<times> world) \<times> py_error option" where
  "execute binaryFile sw inp =
     (case stateActions binaryFile (fst sw) inp (snd sw) of
        ((st1, w1), Some e) \<Rightarrow> ((st1, w1), Some e)
      | ((st1, w1), None) \<Rightarrow>
          (case stateTransition binaryFile st1 inp w1 of
             (Inl e, w2) \<Rightarrow> ((st1, w2), Some e)
           | (Inr None, w2) \<Rightarrow> ((st1, w2), None)
           | (Inr (Some next_state), w2) \<Rightarrow> ((next_state, w2), None)))"

text \<open>
  The polling loop of the main cell, for a given sequence of read results: one
  \<^verbatim>\<open>context.execute\<close> per result, until an exception leaves the loop.
\<close>

fun run :: "BinaryFile \<Rightarrow> state \<times> world \<Rightarrow> byte list option list \<Rightarrow> (state \<times> world) \<times> py_error option" where
  "run binaryFile sw [] = (sw, None)"
| "run binaryFile sw (inp # inps) =
     (case execute binaryFile sw inp of
        (sw1, Some e) \<Rightarrow> (sw1, Some e)
      | (sw1, None) \<Rightarrow> run binaryFile sw1 inps)"

text \<open>The class of a state object, without its attributes.\<close>

datatype state_kind = Idle | CheckHeaderAndEraseMem | Prepare2Flash | SendFlashData | FlashDone | Error

fun kind_of :: "state \<Rightarrow> state_kind" where
  "kind_of Idle_01 = Idle"
| "kind_of CheckHeaderAndEraseMem_02 = CheckHeaderAndEraseMem"
| "kind_of Prepare2Flash_03 = Prepare2Flash"
| "kind_of (SendFlashData_04 n) = SendFlashData"
| "kind_of FlashDone_99 = FlashDone"
| "kind_of Error_98 = Error"

section \<open>Notions used in the statements\<close>

text \<open>
  The packet list holds at least the announced number of packets. \<^verbatim>\<open>__init__\<close>
  establishes this and \<^verbatim>\<open>loadBinary\<close> keeps it, so every image the program can hold
  satisfies it.
\<close>

definition packets_loaded :: "BinaryFile \<Rightarrow> bool" where
  "packets_loaded binaryFile = (fileSizePackets binaryFile \<le> length (filePackets binaryFile))"

text \<open>The opcodes tested by the guards of a state class, in its action or its transition.\<close>

fun reacts_to :: "state \<Rightarrow> byte \<Rightarrow> bool" where
  "reacts_to Idle_01 b = (b = 0x80)"
| "reacts_to CheckHeaderAndEraseMem_02 b = (b = 0x81 \<or> b = 0x8E)"
| "reacts_to Prepare2Flash_03 b = (b = 0x81 \<or> b = 0x82)"
| "reacts_to (SendFlashData_04 n) b = (b = 0x84 \<or> b = 0x8F)"
| "reacts_to FlashDone_99 b = (b = 0x85)"
| "reacts_to Error_98 b = False"

text \<open>
  The condition under which \<^verbatim>\<open>stateTransition\<close> of a state class returns a state for a
  four-byte frame: the guards of its returning branches.
\<close>

fun transition_guard :: "state \<Rightarrow> byte list \<Rightarrow> bool" where
  "transition_guard Idle_01 f = (f ! 0 = 0x80)"
| "transition_guard CheckHeaderAndEraseMem_02 f = (f ! 0 = 0x8E \<or> (f ! 0 = 0x81 \<and> f ! 2 = 0x01))"
| "transition_guard Prepare2Flash_03 f = (f ! 0 = 0x82)"
| "transition_guard (SendFlashData_04 n) f = (f ! 0 = 0x84 \<or> f ! 0 = 0x8F)"
| "transition_guard FlashDone_99 f = (f ! 0 = 0x85)"
| "transition_guard Error_98 f = True"

text \<open>An input that is neither of the two frames that end streaming.\<close>

definition non_terminal :: "byte list option \<Rightarrow> bool" where
  "non_terminal inp = (\<not> opcode_is inp 0x84 \<and> \<not> opcode_is inp 0x8F)"

subsection \<open>Concrete images\<close>

text \<open>
  An image of 520 bytes with the word 1 at offset 0x200 and the word 2 at offset 0x204,
  little-endian as the target stores them: the versions of the run recorded in the
  notebook (\<^verbatim>\<open>SW Version: 00000001 - 00000002\<close>).
\<close>

definition sample_image :: "byte list" where
  "sample_image = replicate 512 0 @ [1, 0, 0, 0, 2, 0, 0, 0]"

definition sample_binaryFile :: BinaryFile where
  "sample_binaryFile = fst (loadBinary BinaryFile_init (Some sample_image))"

text \<open>The same image with version bytes 0x10 and 0x0A.\<close>

definition version16_image :: "byte list" where
  "version16_image = replicate 512 0 @ [0x10, 0, 0, 0, 2, 0, 0, 0]"

definition version10_image :: "byte list" where
  "version10_image = replicate 512 0 @ [0x0A, 0, 0, 0, 2, 0, 0, 0]"

text \<open>An image of \<open>2^26\<close> zero bytes: \<open>2^24\<close> packets.\<close>

definition oversize_image :: "byte list" where
  "oversize_image = replicate 67108864 0"

section \<open>Loading an image\<close>

lemma ceil_div4: "nat \<lceil>real L / real BYTES_PER_PACKET\<rceil> = (L + 3) div 4"
  unfolding BYTES_PER_PACKET_def
  by (simp add: ceiling_divide_eq_div[of "int L" 4, simplified] nat_div_distrib)

lemma foldl_append_packets:
  "foldl (\<lambda>ps idx. ps @ [f idx]) acc idxs = acc @ map f idxs"
  by (induction idxs arbitrary: acc) simp_all

lemma loadBinary_filePackets:
  "filePackets (fst (loadBinary b (Some d))) =
     filePackets b @ map (packet_slice d) [0..<(length d + 3) div 4]"
  by (simp add: loadBinary_def Let_def ceil_div4 foldl_append_packets index_def split: sum.splits)

lemma loadBinary_fileSizePackets:
  "fileSizePackets (fst (loadBinary b (Some d))) = (length d + 3) div 4"
  by (simp add: loadBinary_def Let_def ceil_div4 index_def split: sum.splits)

lemma loadBinary_fileData:
  "fileData (fst (loadBinary b (Some d))) = d
   \<and> fileSizeBytes (fst (loadBinary b (Some d))) = length d"
  by (simp add: loadBinary_def Let_def index_def split: sum.splits)

text \<open>The call returns exactly when packet 0x81 exists after the loop.\<close>

lemma loadBinary_returns:
  "snd (loadBinary b (Some d)) =
     (if 0x81 < length (filePackets b) + (length d + 3) div 4 then None else Some IndexError)"
  by (simp add: loadBinary_def Let_def ceil_div4 foldl_append_packets index_def split: sum.splits)

lemma loadBinary_fresh_returns:
  "snd (loadBinary BinaryFile_init (Some d)) = None \<longleftrightarrow> 517 \<le> length d"
  by (simp add: loadBinary_returns BinaryFile_init_def) arith

lemma packet_slice_full:
  assumes "4 * i + 4 \<le> length d"
  shows "packet_slice d i = [d ! (4 * i + 3), d ! (4 * i + 2), d ! (4 * i + 1), d ! (4 * i)]"
proof -
  have "take 4 (drop (4 * i) d) = [d ! (4 * i), d ! (4 * i + 1), d ! (4 * i + 2), d ! (4 * i + 3)]"
    using assms by (simp add: numeral_eq_Suc take_Suc_conv_app_nth)
  then show ?thesis
    by (simp add: packet_slice_def BYTES_PER_PACKET_def mult.commute)
qed

lemma packet_slice_tail:
  assumes "length d mod 4 \<noteq> 0"
  shows "packet_slice d (length d div 4) = rev (drop (4 * (length d div 4)) d)"
    and "length (packet_slice d (length d div 4)) = length d mod 4"
proof -
  have "length (drop (4 * (length d div 4)) d) = length d mod 4"
    by (simp add: minus_mult_div_eq_mod)
  then show "packet_slice d (length d div 4) = rev (drop (4 * (length d div 4)) d)"
    "length (packet_slice d (length d div 4)) = length d mod 4"
    by (simp_all add: packet_slice_def BYTES_PER_PACKET_def mult.commute)
qed

text \<open>
  Claim C1. Loading a file of length \<open>L\<close> into a fresh image leaves the image with
  \<^verbatim>\<open>fileSizePackets\<close> equal to the ceiling of \<open>L / 4\<close> (that is \<open>(L + 3) div 4\<close>) and with exactly
  that many packets; every packet \<open>i\<close> whose four bytes exist (\<open>4 * i + 4 \<le> L\<close>) is the raw
  bytes \<open>4 * i\<close> to \<open>4 * i + 3\<close> in reverse order; and when \<open>L\<close> is not a multiple of four the
  last packet is the remaining \<open>L mod 4\<close> tail bytes reversed, without padding. These
  fields are assigned before the version words are read, so the statement holds for
  every file, also one too short for the version words (fewer than 517 bytes, lemma
  \<open>loadBinary_fresh_returns\<close>), on which the call then raises IndexError.
\<close>

theorem loadBinary_packetisation:
  "fileSizePackets (fst (loadBinary BinaryFile_init (Some d))) = nat \<lceil>real (length d) / 4\<rceil>
   \<and> fileSizePackets (fst (loadBinary BinaryFile_init (Some d))) = (length d + 3) div 4
   \<and> length (filePackets (fst (loadBinary BinaryFile_init (Some d))))
       = fileSizePackets (fst (loadBinary BinaryFile_init (Some d)))
   \<and> (\<forall>i. 4 * i + 4 \<le> length d \<longrightarrow>
         filePackets (fst (loadBinary BinaryFile_init (Some d))) ! i
           = [d ! (4 * i + 3), d ! (4 * i + 2), d ! (4 * i + 1), d ! (4 * i)])
   \<and> (length d mod 4 \<noteq> 0 \<longrightarrow>
         last (filePackets (fst (loadBinary BinaryFile_init (Some d))))
           = rev (drop (4 * (length d div 4)) d)
         \<and> length (last (filePackets (fst (loadBinary BinaryFile_init (Some d)))))
           = length d mod 4)"
proof -
  let ?b = "fst (loadBinary BinaryFile_init (Some d))"
  let ?n = "(length d + 3) div 4"
  have ps: "filePackets ?b = map (packet_slice d) [0..<?n]"
    by (simp add: loadBinary_filePackets BinaryFile_init_def)
  have n: "fileSizePackets ?b = ?n"
    by (rule loadBinary_fileSizePackets)
  have c: "nat \<lceil>real (length d) / 4\<rceil> = ?n"
    using ceil_div4 [of "length d"] by (simp add: BYTES_PER_PACKET_def)
  have full: "filePackets ?b ! i = [d ! (4 * i + 3), d ! (4 * i + 2), d ! (4 * i + 1), d ! (4 * i)]"
    if "4 * i + 4 \<le> length d" for i
  proof -
    from that have "i < ?n" by arith
    then show ?thesis using that by (simp add: ps packet_slice_full)
  qed
  have tail: "last (filePackets ?b) = rev (drop (4 * (length d div 4)) d)
      \<and> length (last (filePackets ?b)) = length d mod 4"
    if "length d mod 4 \<noteq> 0"
  proof -
    from that have "?n = Suc (length d div 4)" by arith
    then have "last (filePackets ?b) = packet_slice d (length d div 4)"
      by (simp add: ps)
    then show ?thesis using packet_slice_tail [OF that] by simp
  qed
  have len: "length (filePackets ?b) = fileSizePackets ?b"
    by (simp add: ps n)
  from n c len have "fileSizePackets ?b = nat \<lceil>real (length d) / 4\<rceil>
      \<and> fileSizePackets ?b = ?n \<and> length (filePackets ?b) = fileSizePackets ?b"
    by simp
  moreover from full have "\<forall>i. 4 * i + 4 \<le> length d \<longrightarrow>
      filePackets ?b ! i = [d ! (4 * i + 3), d ! (4 * i + 2), d ! (4 * i + 1), d ! (4 * i)]"
    by blast
  moreover from tail have "length d mod 4 \<noteq> 0 \<longrightarrow>
      last (filePackets ?b) = rev (drop (4 * (length d div 4)) d)
      \<and> length (last (filePackets ?b)) = length d mod 4"
    by blast
  ultimately show ?thesis by blast
qed

theorem loadBinary_packetisation_witness:
  "4 * 0 + 4 \<le> length [1, 2, 3, 4, 5, 6 :: byte]
   \<and> length [1, 2, 3, 4, 5, 6 :: byte] mod 4 \<noteq> 0
   \<and> fileSizePackets (fst (loadBinary BinaryFile_init (Some [1, 2, 3, 4, 5, 6]))) = 2
   \<and> length (filePackets (fst (loadBinary BinaryFile_init (Some [1, 2, 3, 4, 5, 6])))) = 2
   \<and> filePackets (fst (loadBinary BinaryFile_init (Some [1, 2, 3, 4, 5, 6]))) ! 0 = [4, 3, 2, 1]
   \<and> last (filePackets (fst (loadBinary BinaryFile_init (Some [1, 2, 3, 4, 5, 6])))) = [6, 5]"
proof -
  have "4 * 0 + 4 \<le> length [1, 2, 3, 4, 5, 6 :: byte]" by simp
  then show ?thesis
    using loadBinary_packetisation [of "[1, 2, 3, 4, 5, 6]"] by simp
qed

section \<open>Hex strings and the serial port\<close>

lemma hexval_hexdigit: "n < 16 \<Longrightarrow> hexval (hexdigit n) = Some n"
  by (simp add: hexval_def hexdigit_def Let_def)

lemma fromhex_hex_byte:
  "fromhex (hex_byte b @ cs) = (case fromhex cs of Inl e \<Rightarrow> Inl e | Inr bs \<Rightarrow> Inr (b # bs))"
proof -
  have "unat b div 16 < 16" using unsigned_less [of b, where ?'a = nat] by simp
  moreover have "(of_nat (16 * (unat b div 16) + unat b mod 16) :: byte) = b" by simp
  ultimately show ?thesis
    by (simp add: hex_byte_def hexval_hexdigit split: sum.splits)
qed

lemma fromhex_hex: "fromhex (hex bs) = Inr bs"
  by (induction bs) (simp_all add: hex_def fromhex_hex_byte)

lemma writeSerialBuffer_hex:
  "writeSerialBuffer (hex bs) echo w =
     (None, if echo then py_print [Str ''     TX-> '', Str (hex bs)] (w\<lparr>serialTx := serialTx w @ [bs]\<rparr>)
            else w\<lparr>serialTx := serialTx w @ [bs]\<rparr>)"
  by (simp add: writeSerialBuffer_def fromhex_hex Let_def)

lemma be_bytes_1: "be_bytes 1 n = [of_nat (n mod 256)]"
  by simp

lemma be_bytes_3:
  "be_bytes 3 n = [of_nat (n div 65536 mod 256), of_nat (n div 256 mod 256), of_nat (n mod 256)]"
proof -
  have "n div 256 div 256 = n div 65536"
    by (simp add: div_mult2_eq [symmetric])
  then show ?thesis by (simp add: numeral_3_eq_3)
qed

lemma to_bytes_3:
  "to_bytes (int n) 3 =
     (if n < 2 ^ 24
      then Inr [of_nat (n div 65536 mod 256), of_nat (n div 256 mod 256), of_nat (n mod 256)]
      else Inl OverflowError)"
proof -
  have "(int n < 256 ^ 3) = (n < 2 ^ 24)" by (simp add: zless_nat_eq_int_zless [symmetric])
  then show ?thesis by (simp add: to_bytes_def be_bytes_3)
qed

lemma to_bytes_3_overflow: "to_bytes 16777216 3 = Inl OverflowError"
  by (simp add: to_bytes_def)

lemma py_int_versions:
  "py_int (PyStr ''00000001'') = Inr 1" "py_int (PyStr ''00000002'') = Inr 2"
  "py_int (PyStr ''00000010'') = Inr 10" "py_int (PyStr ''0000000a'') = Inl ValueError"
  by (simp_all add: py_int_def decval_def)

lemma uint_byte_eq_1: "(uint (b :: byte) = 1) = (b = 1)"
  by (simp add: word_uint_eq_iff)

lemma world_init_fields: "serialTx world_init = []" "console world_init = []"
  by (simp_all add: world_init_def)

section \<open>Images produced by the loader\<close>

lemma loadBinary_success:
  assumes "0x81 < length (filePackets b) + (length d + 3) div 4"
  shows "loadBinary b (Some d) =
    (\<lparr>fileData = d, fileSizeBytes = length d, fileSizePackets = (length d + 3) div 4,
      filePackets = filePackets b @ map (packet_slice d) [0..<(length d + 3) div 4],
      SW_MAJOR = PyStr (hex ((filePackets b @ map (packet_slice d) [0..<(length d + 3) div 4]) ! 0x80)),
      SW_MINOR = PyStr (hex ((filePackets b @ map (packet_slice d) [0..<(length d + 3) div 4]) ! 0x81)),
      CRC_MSB = uint (drop_bit 8 (crc_ccitt_false d AND 0xFF00)),
      CRC_LSB = uint (crc_ccitt_false d AND 0x00FF)\<rparr>, None)"
  using assms
  by (cases b) (simp add: loadBinary_def Let_def ceil_div4 foldl_append_packets index_def)

lemma loadBinary_fresh_versions:
  assumes "517 \<le> length d"
  shows "SW_MAJOR (fst (loadBinary BinaryFile_init (Some d)))
           = PyStr (hex [d ! 0x203, d ! 0x202, d ! 0x201, d ! 0x200])"
    and "SW_MINOR (fst (loadBinary BinaryFile_init (Some d))) = PyStr (hex (packet_slice d 0x81))"
proof -
  have fp: "filePackets BinaryFile_init = []"
    by (simp add: BinaryFile_init_def)
  from assms have n: "0x81 < length (filePackets BinaryFile_init) + (length d + 3) div 4"
    by (simp add: fp)
  from assms have "4 * 0x80 + 4 \<le> length d" by simp
  from packet_slice_full [OF this]
  have p: "packet_slice d 0x80 = [d ! 0x203, d ! 0x202, d ! 0x201, d ! 0x200]" by simp
  from assms have i: "(0x80 :: nat) < (length d + 3) div 4" "(0x81 :: nat) < (length d + 3) div 4"
    by arith+
  note s = loadBinary_success [OF n, unfolded fp]
  show "SW_MAJOR (fst (loadBinary BinaryFile_init (Some d)))
           = PyStr (hex [d ! 0x203, d ! 0x202, d ! 0x201, d ! 0x200])"
    using i by (simp add: s p)
  show "SW_MINOR (fst (loadBinary BinaryFile_init (Some d))) = PyStr (hex (packet_slice d 0x81))"
    using i by (simp add: s)
qed

lemma length_sample_image: "length sample_image = 520"
  by (simp add: sample_image_def)

lemma packet_slice_sample:
  "packet_slice sample_image 0x80 = [0, 0, 0, 1]"
  "packet_slice sample_image 0x81 = [0, 0, 0, 2]"
  "packet_slice sample_image 0 = [0, 0, 0, 0]"
proof -
  have r: "replicate 4 (0 :: byte) = [0, 0, 0, 0]"
    by (simp add: numeral_eq_Suc)
  show "packet_slice sample_image 0x80 = [0, 0, 0, 1]"
    "packet_slice sample_image 0x81 = [0, 0, 0, 2]"
    "packet_slice sample_image 0 = [0, 0, 0, 0]"
    by (simp_all add: packet_slice_def BYTES_PER_PACKET_def sample_image_def r)
qed

lemma loadBinary_sample:
  "loadBinary BinaryFile_init (Some sample_image) = (sample_binaryFile, None)"
  using loadBinary_fresh_returns [of sample_image]
  by (simp add: sample_binaryFile_def length_sample_image prod_eq_iff)

lemma sample_binaryFile_fields:
  "fileSizePackets sample_binaryFile = 130"
  "length (filePackets sample_binaryFile) = 130"
  "SW_MAJOR sample_binaryFile = PyStr ''00000001''"
  "SW_MINOR sample_binaryFile = PyStr ''00000002''"
  "filePackets sample_binaryFile ! 0 = [0, 0, 0, 0]"
  "packets_loaded sample_binaryFile"
proof -
  have s: "loadBinary BinaryFile_init (Some sample_image) =
    (\<lparr>fileData = sample_image, fileSizeBytes = 520, fileSizePackets = 130,
      filePackets = map (packet_slice sample_image) [0..<130],
      SW_MAJOR = PyStr (hex (map (packet_slice sample_image) [0..<130] ! 0x80)),
      SW_MINOR = PyStr (hex (map (packet_slice sample_image) [0..<130] ! 0x81)),
      CRC_MSB = uint (drop_bit 8 (crc_ccitt_false sample_image AND 0xFF00)),
      CRC_LSB = uint (crc_ccitt_false sample_image AND 0x00FF)\<rparr>, None)"
    using loadBinary_success [of BinaryFile_init sample_image]
    by (simp add: length_sample_image BinaryFile_init_def)
  have h: "hex [0, 0, 0, 1] = ''00000001''" "hex [0, 0, 0, 2] = ''00000002''"
    by code_simp+
  show "fileSizePackets sample_binaryFile = 130"
    "length (filePackets sample_binaryFile) = 130"
    "SW_MAJOR sample_binaryFile = PyStr ''00000001''"
    "SW_MINOR sample_binaryFile = PyStr ''00000002''"
    "filePackets sample_binaryFile ! 0 = [0, 0, 0, 0]"
    "packets_loaded sample_binaryFile"
    by (simp_all add: sample_binaryFile_def s packet_slice_sample h packets_loaded_def)
qed

lemma sample_first_packets:
  "take (Suc (Suc 0)) (filePackets sample_binaryFile) = [[0, 0, 0, 0], [0, 0, 0, 0]]"
proof -
  have "filePackets sample_binaryFile = map (packet_slice sample_image) [0..<130]"
    by (simp add: sample_binaryFile_def loadBinary_filePackets length_sample_image
        BinaryFile_init_def)
  moreover have "take (Suc (Suc 0)) [0..<130] = [0, Suc 0]"
    by (simp add: take_upt upt_rec)
  moreover have "packet_slice sample_image (Suc 0) = [0, 0, 0, 0]"
  proof -
    have r: "replicate 4 (0 :: byte) = [0, 0, 0, 0]"
      by (simp add: numeral_eq_Suc)
    show ?thesis
      by (simp add: packet_slice_def BYTES_PER_PACKET_def sample_image_def r)
  qed
  ultimately show ?thesis
    by (simp add: take_map packet_slice_sample)
qed

lemma version_images:
  "length version16_image = 520" "length version10_image = 520"
  "version16_image ! 0x200 = 0x10" "version10_image ! 0x200 = 0x0A"
  "SW_MAJOR (fst (loadBinary BinaryFile_init (Some version16_image))) = PyStr ''00000010''"
  "SW_MINOR (fst (loadBinary BinaryFile_init (Some version16_image))) = PyStr ''00000002''"
  "SW_MAJOR (fst (loadBinary BinaryFile_init (Some version10_image))) = PyStr ''0000000a''"
  "SW_MINOR (fst (loadBinary BinaryFile_init (Some version10_image))) = PyStr ''00000002''"
proof -
  have h: "hex [0, 0, 0, 0x10] = ''00000010''" "hex [0, 0, 0, 2] = ''00000002''"
    "hex [0, 0, 0, 0x0A] = ''0000000a''"
    by code_simp+
  show "length version16_image = 520" "length version10_image = 520"
    "version16_image ! 0x200 = 0x10" "version10_image ! 0x200 = 0x0A"
    by (simp_all add: version16_image_def version10_image_def nth_append)
  show "SW_MAJOR (fst (loadBinary BinaryFile_init (Some version16_image))) = PyStr ''00000010''"
    "SW_MINOR (fst (loadBinary BinaryFile_init (Some version16_image))) = PyStr ''00000002''"
    by (simp_all add: loadBinary_fresh_versions version16_image_def nth_append h
        packet_slice_def BYTES_PER_PACKET_def)
  show "SW_MAJOR (fst (loadBinary BinaryFile_init (Some version10_image))) = PyStr ''0000000a''"
    "SW_MINOR (fst (loadBinary BinaryFile_init (Some version10_image))) = PyStr ''00000002''"
    by (simp_all add: loadBinary_fresh_versions version10_image_def nth_append h
        packet_slice_def BYTES_PER_PACKET_def)
qed

lemma oversize_image_facts:
  "length oversize_image = 67108864"
  "fileSizePackets (fst (loadBinary BinaryFile_init (Some oversize_image))) = 16777216"
  "snd (loadBinary BinaryFile_init (Some oversize_image)) = None"
proof -
  show l: "length oversize_image = 67108864"
    by (simp add: oversize_image_def)
  show "fileSizePackets (fst (loadBinary BinaryFile_init (Some oversize_image))) = 16777216"
    by (simp add: loadBinary_fileSizePackets l)
  show "snd (loadBinary BinaryFile_init (Some oversize_image)) = None"
    by (simp add: loadBinary_fresh_returns l)
qed

subsection \<open>Determinism of loading\<close>

text \<open>Every field a fresh image holds after the call, as a function of the file bytes.\<close>

lemma loadBinary_fresh_fields:
  "fileData (fst (loadBinary BinaryFile_init (Some d))) = d"
  "fileSizeBytes (fst (loadBinary BinaryFile_init (Some d))) = length d"
  "fileSizePackets (fst (loadBinary BinaryFile_init (Some d))) = (length d + 3) div 4"
  "filePackets (fst (loadBinary BinaryFile_init (Some d)))
     = map (packet_slice d) [0..<(length d + 3) div 4]"
  "SW_MAJOR (fst (loadBinary BinaryFile_init (Some d)))
     = (if 0x80 < (length d + 3) div 4 then PyStr (hex (packet_slice d 0x80)) else PyInt 0)"
  "SW_MINOR (fst (loadBinary BinaryFile_init (Some d)))
     = (if 0x81 < (length d + 3) div 4 then PyStr (hex (packet_slice d 0x81)) else PyInt 0)"
  "CRC_MSB (fst (loadBinary BinaryFile_init (Some d)))
     = (if 0x81 < (length d + 3) div 4
        then uint (drop_bit 8 (crc_ccitt_false d AND 0xFF00)) else 0)"
  "CRC_LSB (fst (loadBinary BinaryFile_init (Some d)))
     = (if 0x81 < (length d + 3) div 4 then uint (crc_ccitt_false d AND 0x00FF) else 0)"
  "snd (loadBinary BinaryFile_init (Some d))
     = (if 0x81 < (length d + 3) div 4 then None else Some IndexError)"
  by (simp_all add: loadBinary_def Let_def ceil_div4 foldl_append_packets index_def
      BinaryFile_init_def)

text \<open>
  Claim C9. Loading is deterministic: two loads of identical file bytes, each into a fresh
  image (the program builds one \<^verbatim>\<open>BinaryFile()\<close> and loads into it once), have the same
  outcome and leave images that are equal in every field, so the packets sequences, the
  version fields and both checksum bytes are identical. Each of these fields is the
  function of the file bytes given in the statement and of nothing else. This includes
  loading the same file twice, and it includes files too short for the version words,
  on which both loads raise IndexError and leave the same fields behind.
\<close>

theorem loadBinary_deterministic:
  assumes "d1 = d2"
  shows "snd (loadBinary BinaryFile_init (Some d1)) = snd (loadBinary BinaryFile_init (Some d2))
     \<and> fst (loadBinary BinaryFile_init (Some d1)) = fst (loadBinary BinaryFile_init (Some d2))
     \<and> filePackets (fst (loadBinary BinaryFile_init (Some d1)))
         = map (packet_slice d2) [0..<(length d2 + 3) div 4]
     \<and> SW_MAJOR (fst (loadBinary BinaryFile_init (Some d1)))
         = (if 0x80 < (length d2 + 3) div 4 then PyStr (hex (packet_slice d2 0x80)) else PyInt 0)
     \<and> SW_MINOR (fst (loadBinary BinaryFile_init (Some d1)))
         = (if 0x81 < (length d2 + 3) div 4 then PyStr (hex (packet_slice d2 0x81)) else PyInt 0)
     \<and> CRC_MSB (fst (loadBinary BinaryFile_init (Some d1)))
         = (if 0x81 < (length d2 + 3) div 4
            then uint (drop_bit 8 (crc_ccitt_false d2 AND 0xFF00)) else 0)
     \<and> CRC_LSB (fst (loadBinary BinaryFile_init (Some d1)))
         = (if 0x81 < (length d2 + 3) div 4 then uint (crc_ccitt_false d2 AND 0x00FF) else 0)"
  using assms by (simp add: loadBinary_fresh_fields)

text \<open>The theorem at a concrete input.\<close>

theorem loadBinary_deterministic_witness:
  "sample_image = sample_image
   \<and> snd (loadBinary BinaryFile_init (Some sample_image)) = None
   \<and> fst (loadBinary BinaryFile_init (Some sample_image)) = sample_binaryFile
   \<and> SW_MAJOR (fst (loadBinary BinaryFile_init (Some sample_image))) = PyStr ''00000001''
   \<and> SW_MINOR (fst (loadBinary BinaryFile_init (Some sample_image))) = PyStr ''00000002''
   \<and> length (filePackets (fst (loadBinary BinaryFile_init (Some sample_image)))) = 130"
  using loadBinary_deterministic [of sample_image sample_image]
  by (simp add: loadBinary_sample sample_binaryFile_fields length_sample_image)

section \<open>Steps of the state machine\<close>

lemma opcode_is_simps:
  "opcode_is None c = False"
  "opcode_is (Some f) c = (f \<noteq> [] \<and> f ! 0 = c)"
  by (simp_all add: opcode_is_def)

lemma input_at_Some:
  "i < length f \<Longrightarrow> input_at (Some f) i = Inr (uint (f ! i))"
  by (simp add: input_at_def index_def)

lemma stateActions_SendFlashData:
  assumes "packets_loaded bf"
  shows "stateActions bf (SendFlashData_04 c) inp w =
    (if c < fileSizePackets bf then
       ((SendFlashData_04 (c + 1),
         if (c + 1) mod 250 = 0
         then py_print [Str ''--> Transmitted packets: '', Num (int (c + 1)), Str '' <--'']
                (w\<lparr>serialTx := serialTx w @ [filePackets bf ! c]\<rparr>)
         else w\<lparr>serialTx := serialTx w @ [filePackets bf ! c]\<rparr>), None)
     else
       ((SendFlashData_04 c,
         if c mod 250 = 0
         then py_print [Str ''--> Transmitted packets: '', Num (int c), Str '' <--''] w
         else w), None))"
  using assms
  by (simp add: packets_loaded_def index_def writeSerialBuffer_hex)

lemma execute_NoFrame:
  "st \<noteq> Error_98 \<Longrightarrow> kind_of st \<noteq> SendFlashData \<Longrightarrow> execute bf (st, w) None = ((st, w), None)"
  by (cases st) (simp_all add: execute_def opcode_is_simps)

lemma run_NoFrame:
  "st \<noteq> Error_98 \<Longrightarrow> kind_of st \<noteq> SendFlashData \<Longrightarrow>
     run bf (st, w) (replicate n None) = ((st, w), None)"
  by (induction n) (simp_all add: execute_NoFrame)

lemma stateActions_reacts:
  "reacts_to (fst (fst (stateActions bf st inp w))) b = reacts_to st b"
  by (cases st) (auto simp: Let_def split: sum.splits prod.splits option.splits)

lemma stateActions_unreactive:
  "bs \<noteq> [] \<Longrightarrow> \<not> reacts_to st (bs ! 0) \<Longrightarrow>
     stateActions bf st (Some bs) w = stateActions bf st None w"
  by (cases st) (simp_all add: opcode_is_simps)

lemma stateTransition_unreactive:
  "bs \<noteq> [] \<Longrightarrow> \<not> reacts_to st (bs ! 0) \<Longrightarrow>
     stateTransition bf st (Some bs) w = stateTransition bf st None w"
  by (cases st) (simp_all add: opcode_is_simps)

lemma idle_presence_frame:
  assumes "opcode_is inp 0x80"
    and "py_int (SW_MAJOR bf) = Inr a" and "0 \<le> a" and "a < 256"
    and "py_int (SW_MINOR bf) = Inr b" and "0 \<le> b" and "b < 256"
  shows "execute bf (Idle_01, w) inp =
    ((CheckHeaderAndEraseMem_02,
      py_print [Str ''     TX-> '', Str (hex [0xC0, of_int a, of_int b, 0xFF])]
        ((py_print [Str ''--> Device found! Starting communication to flash SW + sending SW version to MCU <--''] w)
           \<lparr>serialTx := serialTx w @ [[0xC0, of_int a, of_int b, 0xFF]]\<rparr>)), None)"
proof -
  have "(of_nat (nat a mod 256) :: byte) = of_int a" "(of_nat (nat b mod 256) :: byte) = of_int b"
    using assms by simp_all
  with assms show ?thesis
    by (simp add: execute_def to_bytes_def be_bytes_1 writeSerialBuffer_hex py_print_def Let_def)
qed

text \<open>The reply of the run recorded in the notebook: \<^verbatim>\<open>TX-> c00102ff\<close>.\<close>

lemma idle_sample_reply:
  "execute sample_binaryFile (Idle_01, world_init) (Some [0x80, 0xFF, 0xFF, 0xFF]) =
     ((CheckHeaderAndEraseMem_02,
       \<lparr>serialTx = [[0xC0, 0x01, 0x02, 0xFF]],
        console = [[Str ''--> Device found! Starting communication to flash SW + sending SW version to MCU <--''],
                   [Str ''     TX-> '', Str ''c00102ff'']]\<rparr>), None)"
proof -
  have h: "hex [0xC0, 0x01, 0x02, 0xFF] = ''c00102ff''" by code_simp
  have "execute sample_binaryFile (Idle_01, world_init) (Some [0x80, 0xFF, 0xFF, 0xFF]) =
    ((CheckHeaderAndEraseMem_02,
      py_print [Str ''     TX-> '', Str (hex [0xC0, of_int 1, of_int 2, 0xFF])]
        ((py_print [Str ''--> Device found! Starting communication to flash SW + sending SW version to MCU <--''] world_init)
           \<lparr>serialTx := serialTx world_init @ [[0xC0, of_int 1, of_int 2, 0xFF]]\<rparr>)), None)"
    by (rule idle_presence_frame)
      (simp_all add: opcode_is_simps sample_binaryFile_fields py_int_versions)
  then show ?thesis by (simp add: h py_print_def world_init_def)
qed

lemma execute_stream_step:
  assumes "packets_loaded bf" and "non_terminal inp"
  shows "\<exists>w1. execute bf (SendFlashData_04 c, w) inp
           = ((SendFlashData_04 (if c < fileSizePackets bf then c + 1 else c), w1), None)
         \<and> serialTx w1 = (if c < fileSizePackets bf then serialTx w @ [filePackets bf ! c]
                           else serialTx w)"
  using assms
  by (simp add: execute_def stateActions_SendFlashData non_terminal_def py_print_def
      del: stateActions.simps)

lemma take_drop_step:
  assumes "c < length P" and "c < m"
  shows "P ! c # take (m - (c + 1)) (drop (c + 1) P) = take (m - c) (drop c P)"
proof -
  from assms obtain k where k: "m - c = Suc k" by (cases "m - c") simp_all
  then have "m - (c + 1) = k" by simp
  with assms k show ?thesis
    by (simp add: Cons_nth_drop_Suc [symmetric])
qed

lemma run_stream:
  assumes "packets_loaded bf" and "list_all non_terminal inps" and "c \<le> fileSizePackets bf"
  shows "\<exists>w1. run bf (SendFlashData_04 c, w) inps
            = ((SendFlashData_04 (min (c + length inps) (fileSizePackets bf)), w1), None)
          \<and> serialTx w1 = serialTx w
               @ take (min (c + length inps) (fileSizePackets bf) - c) (drop c (filePackets bf))"
  using assms
proof (induction inps arbitrary: c w)
  case Nil
  then show ?case by simp
next
  case (Cons inp inps)
  let ?n = "fileSizePackets bf"
  from Cons.prems have nt: "non_terminal inp" and rest: "list_all non_terminal inps" by simp_all
  from execute_stream_step [OF Cons.prems(1) nt, of c w]
  obtain w1 where e: "execute bf (SendFlashData_04 c, w) inp
           = ((SendFlashData_04 (if c < ?n then c + 1 else c), w1), None)"
    and tx: "serialTx w1 = (if c < ?n then serialTx w @ [filePackets bf ! c] else serialTx w)"
    by blast
  show ?case
  proof (cases "c < ?n")
    case True
    then have le: "c + 1 \<le> ?n" by simp
    from Cons.IH [OF Cons.prems(1) rest le, of w1]
    obtain w2 where r: "run bf (SendFlashData_04 (c + 1), w1) inps
            = ((SendFlashData_04 (min (c + 1 + length inps) ?n), w2), None)"
      and tx2: "serialTx w2 = serialTx w1
               @ take (min (c + 1 + length inps) ?n - (c + 1)) (drop (c + 1) (filePackets bf))"
      by blast
    have "c < length (filePackets bf)"
      using True Cons.prems(1) by (simp add: packets_loaded_def)
    moreover have "c < min (c + 1 + length inps) ?n" using True by simp
    ultimately have "filePackets bf ! c
         # take (min (c + 1 + length inps) ?n - (c + 1)) (drop (c + 1) (filePackets bf))
       = take (min (c + 1 + length inps) ?n - c) (drop c (filePackets bf))"
      by (rule take_drop_step)
    with True e r tx tx2 show ?thesis by simp
  next
    case False
    with Cons.prems have eq: "c = ?n" by simp
    from Cons.IH [OF Cons.prems(1) rest Cons.prems(3), of w1]
    obtain w2 where r: "run bf (SendFlashData_04 c, w1) inps
            = ((SendFlashData_04 (min (c + length inps) ?n), w2), None)"
      and tx2: "serialTx w2 = serialTx w1
               @ take (min (c + length inps) ?n - c) (drop c (filePackets bf))"
      by blast
    with False e tx eq show ?thesis by simp
  qed
qed

subsection \<open>Ticks without input\<close>

text \<open>
  Claim C2, as amended. In the states Idle, CheckHeaderAndEraseMem, Prepare2Flash and
  FlashDone, feeding no input (\<open>None\<close>) any number of times changes neither the state
  nor the world: nothing is written to the port and nothing is printed. The Error state
  is different: its transition ignores the input, so the first tick without input prints
  the abort line and moves to Idle, where the remaining ticks change nothing.
\<close>

theorem noframe_stays:
  "(st \<noteq> Error_98 \<and> kind_of st \<noteq> SendFlashData \<longrightarrow>
      run bf (st, w) (replicate n None) = ((st, w), None))
   \<and> run bf (Error_98, w) (replicate (Suc n) None)
       = ((Idle_01, py_print [Str ''--> Process error. Aborting! <--''] w), None)"
proof -
  have "execute bf (Error_98, w) None
      = ((Idle_01, py_print [Str ''--> Process error. Aborting! <--''] w), None)"
    by (simp add: execute_def)
  then show ?thesis
    by (simp add: run_NoFrame)
qed

text \<open>The theorem at a concrete input.\<close>

theorem noframe_stays_witness:
  "Idle_01 \<noteq> Error_98 \<and> kind_of Idle_01 \<noteq> SendFlashData
   \<and> run sample_binaryFile (Idle_01, world_init) (replicate 3 None) = ((Idle_01, world_init), None)
   \<and> run sample_binaryFile (Error_98, world_init) (replicate (Suc 3) None)
       = ((Idle_01, \<lparr>serialTx = [], console = [[Str ''--> Process error. Aborting! <--'']]\<rparr>), None)"
  using noframe_stays [of Idle_01 sample_binaryFile world_init 3]
  by (simp add: py_print_def world_init_def)

text \<open>
  The claim as stated fails in the Error state: one tick without input moves the machine
  to Idle and prints a line.
\<close>

theorem noframe_in_error_counterexample:
  "execute sample_binaryFile (Error_98, world_init) None
     = ((Idle_01, \<lparr>serialTx = [], console = [[Str ''--> Process error. Aborting! <--'']]\<rparr>), None)
   \<and> fst (fst (execute sample_binaryFile (Error_98, world_init) None)) \<noteq> Error_98
   \<and> snd (fst (execute sample_binaryFile (Error_98, world_init) None)) \<noteq> world_init"
  by (simp add: execute_def py_print_def world_init_def)

subsection \<open>The version reply in Idle\<close>

text \<open>
  Claim C3, evaluated on two images. \<^verbatim>\<open>loadBinary\<close> stores the version words as the hex
  strings of packets 0x80 and 0x81, and \<^verbatim>\<open>Idle_01.stateTransition\<close> reads those strings with
  \<^verbatim>\<open>int(...)\<close>, that is in base 10. An image whose byte at offset 0x200 is 0x10 is answered
  with the version byte 0x0A, not 0x10; an image whose byte there is 0x0A makes
  \<^verbatim>\<open>int('0000000a')\<close> raise ValueError after the first log line, so nothing is sent and the
  machine stays in Idle.
\<close>

theorem idle_version_reply_decimal_reading:
  "snd (loadBinary BinaryFile_init (Some version16_image)) = None
   \<and> version16_image ! 0x200 = 0x10
   \<and> execute (fst (loadBinary BinaryFile_init (Some version16_image))) (Idle_01, world_init)
        (Some [0x80, 0xFF, 0xFF, 0xFF])
      = ((CheckHeaderAndEraseMem_02,
          \<lparr>serialTx = [[0xC0, 0x0A, 0x02, 0xFF]],
           console = [[Str ''--> Device found! Starting communication to flash SW + sending SW version to MCU <--''],
                      [Str ''     TX-> '', Str ''c00a02ff'']]\<rparr>), None)
   \<and> snd (loadBinary BinaryFile_init (Some version10_image)) = None
   \<and> version10_image ! 0x200 = 0x0A
   \<and> execute (fst (loadBinary BinaryFile_init (Some version10_image))) (Idle_01, world_init)
        (Some [0x80, 0xFF, 0xFF, 0xFF])
      = ((Idle_01,
          \<lparr>serialTx = [],
           console = [[Str ''--> Device found! Starting communication to flash SW + sending SW version to MCU <--'']]\<rparr>),
         Some ValueError)"
proof -
  have h: "hex [0xC0, 0x0A, 0x02, 0xFF] = ''c00a02ff''" by code_simp
  have "execute (fst (loadBinary BinaryFile_init (Some version16_image))) (Idle_01, world_init)
        (Some [0x80, 0xFF, 0xFF, 0xFF]) =
    ((CheckHeaderAndEraseMem_02,
      py_print [Str ''     TX-> '', Str (hex [0xC0, of_int 10, of_int 2, 0xFF])]
        ((py_print [Str ''--> Device found! Starting communication to flash SW + sending SW version to MCU <--''] world_init)
           \<lparr>serialTx := serialTx world_init @ [[0xC0, of_int 10, of_int 2, 0xFF]]\<rparr>)), None)"
    by (rule idle_presence_frame)
      (simp_all add: opcode_is_simps version_images py_int_versions)
  then have a: "execute (fst (loadBinary BinaryFile_init (Some version16_image))) (Idle_01, world_init)
        (Some [0x80, 0xFF, 0xFF, 0xFF])
      = ((CheckHeaderAndEraseMem_02,
          \<lparr>serialTx = [[0xC0, 0x0A, 0x02, 0xFF]],
           console = [[Str ''--> Device found! Starting communication to flash SW + sending SW version to MCU <--''],
                      [Str ''     TX-> '', Str ''c00a02ff'']]\<rparr>), None)"
    by (simp add: h py_print_def world_init_def)
  have b: "execute (fst (loadBinary BinaryFile_init (Some version10_image))) (Idle_01, world_init)
        (Some [0x80, 0xFF, 0xFF, 0xFF])
      = ((Idle_01,
          \<lparr>serialTx = [],
           console = [[Str ''--> Device found! Starting communication to flash SW + sending SW version to MCU <--'']]\<rparr>),
         Some ValueError)"
    by (simp add: execute_def opcode_is_simps version_images py_int_versions py_print_def
        world_init_def)
  have "snd (loadBinary BinaryFile_init (Some version16_image)) = None"
    "snd (loadBinary BinaryFile_init (Some version10_image)) = None"
    by (simp_all add: loadBinary_fresh_returns version_images)
  with a b show ?thesis by (simp add: version_images)
qed

subsection \<open>Erase progress in CheckHeaderAndEraseMem\<close>

text \<open>
  Claim C4, as amended. In CheckHeaderAndEraseMem, for a four-byte frame with opcode
  0x81 (the done flag is frame byte 2, the \<open>yy\<close> of \<^verbatim>\<open>0x81 xx yy FF\<close>; the sector is frame
  byte 1):
  \<^item> when the flag is 0x01 and the packet count is below \<open>2^24\<close>, the machine writes 0xC1
    followed by the packet count as three big-endian bytes and moves to Prepare2Flash;
  \<^item> when the flag is 0x01 and the packet count is \<open>2^24\<close> or more, \<^verbatim>\<open>to_bytes(3, 'big')\<close>
    raises OverflowError after the two log lines: nothing is written and the state is
    kept;
  \<^item> when the flag is not 0x01, the machine only prints the sector line and stays.
\<close>

theorem erase_progress_frame:
  assumes "length f = 4" and "f ! 0 = 0x81"
  shows "(f ! 2 = 0x01 \<and> fileSizePackets bf < 2 ^ 24 \<longrightarrow>
            fst (fst (execute bf (CheckHeaderAndEraseMem_02, w) (Some f))) = Prepare2Flash_03
          \<and> snd (execute bf (CheckHeaderAndEraseMem_02, w) (Some f)) = None
          \<and> serialTx (snd (fst (execute bf (CheckHeaderAndEraseMem_02, w) (Some f))))
              = serialTx w @ [[0xC1, of_nat (fileSizePackets bf div 65536 mod 256),
                               of_nat (fileSizePackets bf div 256 mod 256),
                               of_nat (fileSizePackets bf mod 256)]])
     \<and> (f ! 2 = 0x01 \<and> 2 ^ 24 \<le> fileSizePackets bf \<longrightarrow>
            execute bf (CheckHeaderAndEraseMem_02, w) (Some f)
              = ((CheckHeaderAndEraseMem_02,
                  py_print [Str ''--> Erasing flash memory - All sectors erased succesfully! <--'']
                    (py_print [Str ''--> Erasing flash memory - Sector '', Num (uint (f ! 1)),
                               Str '' erased! <--''] w)),
                 Some OverflowError))
     \<and> (f ! 2 \<noteq> 0x01 \<longrightarrow>
            execute bf (CheckHeaderAndEraseMem_02, w) (Some f)
              = ((CheckHeaderAndEraseMem_02,
                  py_print [Str ''--> Erasing flash memory - Sector '', Num (uint (f ! 1)),
                            Str '' erased! <--''] w),
                 None))"
proof -
  from assms(1) have "f \<noteq> []" by auto
  with assms show ?thesis
    by (simp add: execute_def opcode_is_simps input_at_Some uint_byte_eq_1 to_bytes_3
        writeSerialBuffer_hex py_print_def Let_def)
qed

text \<open>The theorem at a concrete input.\<close>

theorem erase_progress_frame_witness:
  "length [0x81, 0x0A, 0x01, 0xFF :: byte] = 4 \<and> [0x81, 0x0A, 0x01, 0xFF :: byte] ! 0 = 0x81
   \<and> fileSizePackets sample_binaryFile < 2 ^ 24
   \<and> fst (fst (execute sample_binaryFile (CheckHeaderAndEraseMem_02, world_init)
                 (Some [0x81, 0x0A, 0x01, 0xFF]))) = Prepare2Flash_03
   \<and> serialTx (snd (fst (execute sample_binaryFile (CheckHeaderAndEraseMem_02, world_init)
                 (Some [0x81, 0x0A, 0x01, 0xFF])))) = [[0xC1, 0x00, 0x00, 0x82]]
   \<and> execute sample_binaryFile (CheckHeaderAndEraseMem_02, world_init) (Some [0x81, 0x06, 0x00, 0xFF])
       = ((CheckHeaderAndEraseMem_02,
           \<lparr>serialTx = [],
            console = [[Str ''--> Erasing flash memory - Sector '', Num 6, Str '' erased! <--'']]\<rparr>),
          None)"
  using erase_progress_frame [of "[0x81, 0x0A, 0x01, 0xFF]" sample_binaryFile world_init]
    erase_progress_frame [of "[0x81, 0x06, 0x00, 0xFF]" sample_binaryFile world_init]
  by (simp add: sample_binaryFile_fields py_print_def world_init_def)

text \<open>
  The claim as stated fails for an image of \<open>2^24\<close> packets: the erase-done frame raises
  OverflowError, nothing is written to the port and the state stays
  CheckHeaderAndEraseMem.
\<close>

theorem erase_done_oversize_counterexample:
  "snd (loadBinary BinaryFile_init (Some oversize_image)) = None
   \<and> fileSizePackets (fst (loadBinary BinaryFile_init (Some oversize_image))) = 2 ^ 24
   \<and> execute (fst (loadBinary BinaryFile_init (Some oversize_image)))
        (CheckHeaderAndEraseMem_02, world_init) (Some [0x81, 0x0A, 0x01, 0xFF])
      = ((CheckHeaderAndEraseMem_02,
          \<lparr>serialTx = [],
           console = [[Str ''--> Erasing flash memory - Sector '', Num 10, Str '' erased! <--''],
                      [Str ''--> Erasing flash memory - All sectors erased succesfully! <--'']]\<rparr>),
         Some OverflowError)"
  by (simp add: oversize_image_facts execute_def opcode_is_simps input_at_Some
      to_bytes_3_overflow py_print_def world_init_def Let_def)

subsection \<open>The end of streaming\<close>

text \<open>
  Claim C5. In SendFlashData, a four-byte frame with opcode 0x84 always moves the machine
  to FlashDone without an exception; the last line printed is the match line when frame
  bytes 2 and 3 equal \<^verbatim>\<open>CRC_MSB\<close> and \<^verbatim>\<open>CRC_LSB\<close> of the image, and the mismatch line
  otherwise. A mismatch does not block the transition.
\<close>

theorem checksum_frame_finishes:
  assumes "length f = 4" and "f ! 0 = 0x84" and "packets_loaded bf"
  shows "fst (fst (execute bf (SendFlashData_04 c, w) (Some f))) = FlashDone_99
     \<and> snd (execute bf (SendFlashData_04 c, w) (Some f)) = None
     \<and> last (console (snd (fst (execute bf (SendFlashData_04 c, w) (Some f)))))
         = [Str (if uint (f ! 2) = CRC_MSB bf \<and> uint (f ! 3) = CRC_LSB bf
                 then ''--> CRC matched - Data integrity ensured!''
                 else ''--> CRC not matched - expected - Data integrity not ensured!'')]"
proof -
  from assms(1) have "f \<noteq> []" by auto
  with assms show ?thesis
    by (simp add: execute_def stateActions_SendFlashData opcode_is_simps input_at_Some
        py_print_def Let_def del: stateActions.simps)
qed

text \<open>The theorem at a concrete input.\<close>

theorem checksum_frame_finishes_witness:
  "length [0x84, 0x00, 0xEE, 0x38 :: byte] = 4 \<and> [0x84, 0x00, 0xEE, 0x38 :: byte] ! 0 = 0x84
   \<and> packets_loaded sample_binaryFile
   \<and> fst (fst (execute sample_binaryFile (SendFlashData_04 130, world_init)
                 (Some [0x84, 0x00, 0xEE, 0x38]))) = FlashDone_99
   \<and> snd (execute sample_binaryFile (SendFlashData_04 130, world_init)
            (Some [0x84, 0x00, 0xEE, 0x38])) = None"
  using checksum_frame_finishes [of "[0x84, 0x00, 0xEE, 0x38]" sample_binaryFile 130 world_init]
  by (simp add: sample_binaryFile_fields)

text \<open>
  Claim C6. In SendFlashData with counter \<open>c \<le> fileSizePackets\<close>, a tick whose input is not
  a terminal frame (0x84 or 0x8F) raises nothing; when \<open>c < fileSizePackets\<close> it writes
  \<^verbatim>\<open>filePackets[c]\<close> to the port and the counter becomes \<open>c + 1\<close>; when \<open>c = fileSizePackets\<close> it
  writes nothing and the counter stays. The write and the increment are those of the
  per-tick action, which does them for every input, terminal or not. Over any sequence of such inputs the counter ends
  at \<open>min (c + ticks) fileSizePackets\<close>, so it never exceeds the packet count, and the port
  has received exactly the packets from index \<open>c\<close> up to that counter, in order: from
  counter 0, after \<open>fileSizePackets\<close> ticks the counter equals the packet count and later
  ticks send nothing more.
\<close>

theorem streaming_counter:
  assumes "packets_loaded bf" and "non_terminal inp" and "list_all non_terminal inps"
    and "c \<le> fileSizePackets bf"
  shows "(c < fileSizePackets bf \<longrightarrow>
           fst (fst (stateActions bf (SendFlashData_04 c) any w)) = SendFlashData_04 (c + 1)
           \<and> snd (stateActions bf (SendFlashData_04 c) any w) = None
           \<and> serialTx (snd (fst (stateActions bf (SendFlashData_04 c) any w)))
               = serialTx w @ [filePackets bf ! c])
     \<and> (c < fileSizePackets bf \<longrightarrow>
           fst (fst (execute bf (SendFlashData_04 c, w) inp)) = SendFlashData_04 (c + 1)
           \<and> serialTx (snd (fst (execute bf (SendFlashData_04 c, w) inp)))
               = serialTx w @ [filePackets bf ! c])
     \<and> (c = fileSizePackets bf \<longrightarrow>
           fst (fst (execute bf (SendFlashData_04 c, w) inp)) = SendFlashData_04 c
           \<and> serialTx (snd (fst (execute bf (SendFlashData_04 c, w) inp))) = serialTx w)
     \<and> snd (execute bf (SendFlashData_04 c, w) inp) = None
     \<and> fst (fst (run bf (SendFlashData_04 c, w) inps))
         = SendFlashData_04 (min (c + length inps) (fileSizePackets bf))
     \<and> snd (run bf (SendFlashData_04 c, w) inps) = None
     \<and> serialTx (snd (fst (run bf (SendFlashData_04 c, w) inps)))
         = serialTx w
           @ take (min (c + length inps) (fileSizePackets bf) - c) (drop c (filePackets bf))"
proof -
  from execute_stream_step [OF assms(1,2), of c w]
  obtain w1 where "execute bf (SendFlashData_04 c, w) inp
           = ((SendFlashData_04 (if c < fileSizePackets bf then c + 1 else c), w1), None)"
    and "serialTx w1 = (if c < fileSizePackets bf then serialTx w @ [filePackets bf ! c]
                           else serialTx w)"
    by blast
  moreover from run_stream [OF assms(1,3,4), of w]
  obtain w2 where "run bf (SendFlashData_04 c, w) inps
            = ((SendFlashData_04 (min (c + length inps) (fileSizePackets bf)), w2), None)"
    and "serialTx w2 = serialTx w
               @ take (min (c + length inps) (fileSizePackets bf) - c) (drop c (filePackets bf))"
    by blast
  ultimately have rest: "(c < fileSizePackets bf \<longrightarrow>
           fst (fst (execute bf (SendFlashData_04 c, w) inp)) = SendFlashData_04 (c + 1)
           \<and> serialTx (snd (fst (execute bf (SendFlashData_04 c, w) inp)))
               = serialTx w @ [filePackets bf ! c])
     \<and> (c = fileSizePackets bf \<longrightarrow>
           fst (fst (execute bf (SendFlashData_04 c, w) inp)) = SendFlashData_04 c
           \<and> serialTx (snd (fst (execute bf (SendFlashData_04 c, w) inp))) = serialTx w)
     \<and> snd (execute bf (SendFlashData_04 c, w) inp) = None
     \<and> fst (fst (run bf (SendFlashData_04 c, w) inps))
         = SendFlashData_04 (min (c + length inps) (fileSizePackets bf))
     \<and> snd (run bf (SendFlashData_04 c, w) inps) = None
     \<and> serialTx (snd (fst (run bf (SendFlashData_04 c, w) inps)))
         = serialTx w
           @ take (min (c + length inps) (fileSizePackets bf) - c) (drop c (filePackets bf))"
    using assms(4) by auto
  have act: "c < fileSizePackets bf \<longrightarrow>
           fst (fst (stateActions bf (SendFlashData_04 c) any w)) = SendFlashData_04 (c + 1)
           \<and> snd (stateActions bf (SendFlashData_04 c) any w) = None
           \<and> serialTx (snd (fst (stateActions bf (SendFlashData_04 c) any w)))
               = serialTx w @ [filePackets bf ! c]"
    by (simp add: stateActions_SendFlashData [OF assms(1)] py_print_def del: stateActions.simps)
  from act rest show ?thesis by blast
qed

text \<open>The theorem at a concrete input.\<close>

theorem streaming_counter_witness:
  "packets_loaded sample_binaryFile \<and> non_terminal None
   \<and> list_all non_terminal [None, Some [0x83, 0x06, 0x00, 0xFF]]
   \<and> 0 \<le> fileSizePackets sample_binaryFile
   \<and> fst (fst (stateActions sample_binaryFile (SendFlashData_04 0)
                 (Some [0x84, 0x00, 0xEE, 0x38]) world_init)) = SendFlashData_04 1
   \<and> fst (fst (execute sample_binaryFile (SendFlashData_04 0, world_init) None)) = SendFlashData_04 1
   \<and> serialTx (snd (fst (execute sample_binaryFile (SendFlashData_04 0, world_init) None)))
       = [[0, 0, 0, 0]]
   \<and> fst (fst (run sample_binaryFile (SendFlashData_04 0, world_init)
                 [None, Some [0x83, 0x06, 0x00, 0xFF]])) = SendFlashData_04 2
   \<and> serialTx (snd (fst (run sample_binaryFile (SendFlashData_04 0, world_init)
                 [None, Some [0x83, 0x06, 0x00, 0xFF]]))) = [[0, 0, 0, 0], [0, 0, 0, 0]]"
  using streaming_counter [of sample_binaryFile None "[None, Some [0x83, 0x06, 0x00, 0xFF]]" 0
      "Some [0x84, 0x00, 0xEE, 0x38]" world_init]
  by (simp add: sample_binaryFile_fields non_terminal_def opcode_is_simps world_init_fields
      sample_first_packets del: run.simps stateActions.simps)

text \<open>
  Claim C10. \<^verbatim>\<open>Context.execute\<close> runs the action of the state before its transition. So a
  four-byte terminal frame (0x84 or 0x8F) received in SendFlashData while the counter
  \<open>c\<close> is below the packet count has exactly one more packet, \<^verbatim>\<open>filePackets[c]\<close>, written
  to the port in that tick, and then the state becomes FlashDone (0x84) or Error (0x8F);
  the line printed by the 0x84 branch already reports \<open>c + 1\<close> transmitted packets.
\<close>

theorem terminal_frame_sends_one_more:
  assumes "length f = 4" and "f ! 0 = 0x84 \<or> f ! 0 = 0x8F"
    and "c < fileSizePackets bf" and "packets_loaded bf"
  shows "serialTx (snd (fst (execute bf (SendFlashData_04 c, w) (Some f))))
         = serialTx w @ [filePackets bf ! c]
     \<and> fst (fst (execute bf (SendFlashData_04 c, w) (Some f)))
         = (if f ! 0 = 0x84 then FlashDone_99 else Error_98)
     \<and> snd (execute bf (SendFlashData_04 c, w) (Some f)) = None
     \<and> (if f ! 0 = 0x84
         then [Str ''--> Transmission finished - Transmitted '', Num (int c + 1), Str '' of '',
               Num (int (fileSizePackets bf)), Str '' <--'']
              \<in> set (console (snd (fst (execute bf (SendFlashData_04 c, w) (Some f)))))
         else last (console (snd (fst (execute bf (SendFlashData_04 c, w) (Some f)))))
              = [Str ''--> Error! <--''])"
  using assms
  by (auto simp add: execute_def stateActions_SendFlashData opcode_is_simps input_at_Some
      py_print_def Let_def simp del: stateActions.simps)

text \<open>The theorem at a concrete input.\<close>

theorem terminal_frame_sends_one_more_witness:
  "length [0x8F, 0xFF, 0xFF, 0xFF :: byte] = 4 \<and> [0x8F, 0xFF, 0xFF, 0xFF :: byte] ! 0 = 0x8F
   \<and> 0 < fileSizePackets sample_binaryFile \<and> packets_loaded sample_binaryFile
   \<and> serialTx (snd (fst (execute sample_binaryFile (SendFlashData_04 0, world_init)
        (Some [0x8F, 0xFF, 0xFF, 0xFF])))) = [[0, 0, 0, 0]]
   \<and> fst (fst (execute sample_binaryFile (SendFlashData_04 0, world_init)
        (Some [0x8F, 0xFF, 0xFF, 0xFF]))) = Error_98
   \<and> serialTx (snd (fst (execute sample_binaryFile (SendFlashData_04 0, world_init)
        (Some [0x84, 0x00, 0xEE, 0x38])))) = [[0, 0, 0, 0]]
   \<and> fst (fst (execute sample_binaryFile (SendFlashData_04 0, world_init)
        (Some [0x84, 0x00, 0xEE, 0x38]))) = FlashDone_99"
  using terminal_frame_sends_one_more [of "[0x8F, 0xFF, 0xFF, 0xFF]" 0 sample_binaryFile world_init]
    terminal_frame_sends_one_more [of "[0x84, 0x00, 0xEE, 0x38]" 0 sample_binaryFile world_init]
  by (simp add: sample_binaryFile_fields world_init_def)

subsection \<open>Short and unmatched inputs\<close>

text \<open>
  Claim C7, as amended. A non-empty input shorter than four bytes is treated exactly like
  no input when its first byte is not an opcode that the current state class tests
  (Idle: 0x80; CheckHeaderAndEraseMem: 0x81, 0x8E; Prepare2Flash: 0x81, 0x82;
  SendFlashData: 0x84, 0x8F; FlashDone: 0x85; Error: none): the tick then gives the same
  state, the same world and the same outcome as the tick without input.
\<close>

theorem short_input_like_noframe:
  assumes "bs \<noteq> []" and "length bs < 4" and "\<not> reacts_to st (bs ! 0)"
  shows "execute bf (st, w) (Some bs) = execute bf (st, w) None"
proof -
  obtain st1 w1 r where a: "stateActions bf st None w = ((st1, w1), r)"
    by (metis surj_pair)
  have "reacts_to st1 (bs ! 0) = reacts_to st (bs ! 0)"
    using stateActions_reacts [of bf st None w "bs ! 0"] a by simp
  with assms have "stateTransition bf st1 (Some bs) w1 = stateTransition bf st1 None w1"
    by (simp add: stateTransition_unreactive)
  with assms a show ?thesis
    by (cases r) (simp_all add: execute_def stateActions_unreactive)
qed

text \<open>The theorem at a concrete input.\<close>

theorem short_input_like_noframe_witness:
  "[0x81 :: byte] \<noteq> [] \<and> length [0x81 :: byte] < 4 \<and> \<not> reacts_to Idle_01 ([0x81] ! 0)
   \<and> execute sample_binaryFile (Idle_01, world_init) (Some [0x81]) = ((Idle_01, world_init), None)"
  using short_input_like_noframe [of "[0x81]" Idle_01 sample_binaryFile world_init]
  by (simp add: execute_NoFrame)

text \<open>
  The claim as stated fails: with one byte 0x80 pending, \<^verbatim>\<open>readSerialBuffer\<close> returns that
  one byte, and Idle answers it like a full frame (version reply written, state
  CheckHeaderAndEraseMem), whereas no input leaves Idle and the world untouched.
\<close>

theorem short_input_counterexample:
  "fst (readSerialBuffer [0x80] True world_init) = Some [0x80]
   \<and> execute sample_binaryFile (Idle_01, world_init) (Some [0x80])
      = ((CheckHeaderAndEraseMem_02,
          \<lparr>serialTx = [[0xC0, 0x01, 0x02, 0xFF]],
           console = [[Str ''--> Device found! Starting communication to flash SW + sending SW version to MCU <--''],
                      [Str ''     TX-> '', Str ''c00102ff'']]\<rparr>), None)
   \<and> execute sample_binaryFile (Idle_01, world_init) None = ((Idle_01, world_init), None)"
proof -
  have h: "hex [0xC0, 0x01, 0x02, 0xFF] = ''c00102ff''" by code_simp
  have "execute sample_binaryFile (Idle_01, world_init) (Some [0x80]) =
    ((CheckHeaderAndEraseMem_02,
      py_print [Str ''     TX-> '', Str (hex [0xC0, of_int 1, of_int 2, 0xFF])]
        ((py_print [Str ''--> Device found! Starting communication to flash SW + sending SW version to MCU <--''] world_init)
           \<lparr>serialTx := serialTx world_init @ [[0xC0, of_int 1, of_int 2, 0xFF]]\<rparr>)), None)"
    by (rule idle_presence_frame)
      (simp_all add: opcode_is_simps sample_binaryFile_fields py_int_versions)
  then show ?thesis
    by (simp add: h py_print_def world_init_def readSerialBuffer_def execute_NoFrame Let_def)
qed

text \<open>
  Claim C8. For every state and every four-byte frame for which no returning branch of
  the state's \<^verbatim>\<open>stateTransition\<close> applies, one tick raises no exception and leaves the
  machine in the same state class; outside SendFlashData the state is unchanged
  altogether (in SendFlashData the same state object stays, its counter advanced by the
  per-tick action).
\<close>

theorem unmatched_frame_stays:
  assumes "length f = 4" and "\<not> transition_guard st f" and "packets_loaded bf"
  shows "snd (execute bf (st, w) (Some f)) = None
     \<and> kind_of (fst (fst (execute bf (st, w) (Some f)))) = kind_of st
     \<and> (kind_of st \<noteq> SendFlashData \<longrightarrow> fst (fst (execute bf (st, w) (Some f))) = st)"
proof (cases st)
  case (SendFlashData_04 c)
  then show ?thesis
    using assms
    by (simp add: execute_def stateActions_SendFlashData opcode_is_simps del: stateActions.simps)
next
  case CheckHeaderAndEraseMem_02
  then show ?thesis
    using assms
    by (auto simp add: execute_def opcode_is_simps input_at_Some uint_byte_eq_1)
qed (use assms in \<open>simp_all add: execute_def opcode_is_simps\<close>)

text \<open>The theorem at a concrete input.\<close>

theorem unmatched_frame_stays_witness:
  "length [0x83, 0x06, 0x00, 0xFF :: byte] = 4
   \<and> \<not> transition_guard Idle_01 [0x83, 0x06, 0x00, 0xFF]
   \<and> \<not> transition_guard (SendFlashData_04 0) [0x83, 0x06, 0x00, 0xFF]
   \<and> packets_loaded sample_binaryFile
   \<and> snd (execute sample_binaryFile (Idle_01, world_init) (Some [0x83, 0x06, 0x00, 0xFF])) = None
   \<and> fst (fst (execute sample_binaryFile (Idle_01, world_init) (Some [0x83, 0x06, 0x00, 0xFF]))) = Idle_01
   \<and> snd (execute sample_binaryFile (SendFlashData_04 0, world_init) (Some [0x83, 0x06, 0x00, 0xFF])) = None
   \<and> kind_of (fst (fst (execute sample_binaryFile (SendFlashData_04 0, world_init)
        (Some [0x83, 0x06, 0x00, 0xFF])))) = SendFlashData"
  using unmatched_frame_stays [of "[0x83, 0x06, 0x00, 0xFF]" Idle_01 sample_binaryFile world_init]
    unmatched_frame_stays [of "[0x83, 0x06, 0x00, 0xFF]" "SendFlashData_04 0" sample_binaryFile world_init]
  by (simp add: sample_binaryFile_fields)

end
